theory Spec2Isabelle
  imports Complex_Main "HOL-Library.Word"
begin

section \<open>The Resample transform of torchio\<close>

text \<open>
  A shallow embedding of \<^verbatim>\<open>torchio/transforms/preprocessing/spatial/resample.py\<close>.
  Python floats are modelled as exact rationals, so nothing here speaks about floating-point
  rounding. Objects that the code compares by identity or mutates in place (images) live in
  a heap and are referred to by address.
\<close>

subsection \<open>Python values\<close>

text \<open>
  The arguments that \<^verbatim>\<open>parse_target\<close> and \<^verbatim>\<open>parse_spacing\<close> dispatch on with
  \<^verbatim>\<open>isinstance\<close>: a \<^verbatim>\<open>str\<close>, a \<^verbatim>\<open>pathlib.Path\<close>, an \<^verbatim>\<open>Image\<close> (by address),
  a \<^verbatim>\<open>tuple\<close> of floats, a \<^verbatim>\<open>Number\<close>, \<^verbatim>\<open>None\<close>, or an object of some other
  type (given by the name of its type).
\<close>

type_synonym addr = nat

datatype pyarg =
    Str string
  | PathObj string
  | ImageObj addr
  | Tuple "rat list"
  | Number rat
  | NoneObj
  | Other string

fun type_name :: "pyarg \<Rightarrow> string" where
  "type_name (Str _) = ''str''"
| "type_name (PathObj _) = ''Path''"
| "type_name (ImageObj _) = ''Image''"
| "type_name (Tuple _) = ''tuple''"
| "type_name (Number _) = ''float''"
| "type_name NoneObj = ''NoneType''"
| "type_name (Other ty) = ty"

text \<open>
  Keys of an image dictionary, and the \<^verbatim>\<open>pre_affine_name\<close> argument: a string, or some
  other hashable object (an integer stands for those).
\<close>

datatype pykey = KStr string | KInt int

fun key_type :: "pykey \<Rightarrow> string" where
  "key_type (KStr _) = ''str''"
| "key_type (KInt _) = ''int''"

text \<open>An array (NumPy array or PyTorch tensor): its shape and its entries in row-major order.\<close>

record ndarray =
  shape :: "nat list"
  elems :: "rat list"

datatype pyvalue = NdArray ndarray | Tensor ndarray | PyOther string

text \<open>
  Every \<^verbatim>\<open>raise\<close> of the file, and the two failures of the interpreter that its control flow
  can reach (the \<^verbatim>\<open>assert\<close> of line 200 and the unbound local of line 198). The payload is
  what the message names. The last one is NumPy's failure on a spacing that is \<^verbatim>\<open>None\<close>;
  no object built by the constructor gets there.
\<close>

datatype error =
    ValueError_target_type string
  | ValueError_spacing_not_positive pyarg
  | TypeError_affine_name string
  | TypeError_affine_matrix string
  | ValueError_affine_shape "nat list"
  | ValueError_affine_not_found pykey
  | ValueError_reference_not_found string
  | AssertionError
  | UnboundLocalError string
  | TypeError_spacing_none

datatype pyclass = ValueError | TypeError | AssertionErrorClass | UnboundLocalErrorClass

fun error_class :: "error \<Rightarrow> pyclass" where
  "error_class (ValueError_target_type _) = ValueError"
| "error_class (ValueError_spacing_not_positive _) = ValueError"
| "error_class (TypeError_affine_name _) = TypeError"
| "error_class (TypeError_affine_matrix _) = TypeError"
| "error_class (ValueError_affine_shape _) = ValueError"
| "error_class (ValueError_affine_not_found _) = ValueError"
| "error_class (ValueError_reference_not_found _) = ValueError"
| "error_class AssertionError = AssertionErrorClass"
| "error_class (UnboundLocalError _) = UnboundLocalErrorClass"
| "error_class TypeError_spacing_none = TypeError"

subsection \<open>parse_spacing (lines 101-115)\<close>

text \<open>
  A tuple of length three is returned as it is, a number \<open>n\<close> becomes \<open>(n, n, n)\<close>, anything
  else raises the \<^verbatim>\<open>ValueError\<close> of line 112. Then \<^verbatim>\<open>np.any(np.array(spacing) <= 0)\<close> on the
  original argument raises the \<^verbatim>\<open>ValueError\<close> of line 114.
\<close>

fun parse_spacing :: "pyarg \<Rightarrow> error + rat list" where
  "parse_spacing (Tuple [a, b, c]) =
     (if a \<le> 0 \<or> b \<le> 0 \<or> c \<le> 0
      then Inl (ValueError_spacing_not_positive (Tuple [a, b, c]))
      else Inr [a, b, c])"
| "parse_spacing (Number n) =
     (if n \<le> 0 then Inl (ValueError_spacing_not_positive (Number n))
      else Inr [n, n, n])"
| "parse_spacing spacing = Inl (ValueError_target_type (type_name spacing))"

subsection \<open>SimpleITK images and get_reference_image (lines 212-234)\<close>

text \<open>
  A SimpleITK image: the fields are named after the accessors the code calls. The direction
  matrix is stored row by row, as SimpleITK returns it.
\<close>

record sitk_image =
  GetSize :: "nat list"
  GetSpacing :: "rat list"
  GetOrigin :: "rat list"
  GetDirection :: "rat list"
  GetPixelID :: int
  GetNumberOfComponentsPerPixel :: nat
  pixels :: "rat list"

definition GetDimension :: "sitk_image \<Rightarrow> nat" where
  "GetDimension img = length (GetSize img)"

text \<open>
  SimpleITK's \<^verbatim>\<open>TransformContinuousIndexToPhysicalPoint\<close>: the physical point of a
  continuous index \<open>c\<close> is \<open>origin + direction * diag(spacing) * c\<close>.
\<close>

definition TransformContinuousIndexToPhysicalPoint :: "sitk_image \<Rightarrow> rat list \<Rightarrow> rat list" where
  "TransformContinuousIndexToPhysicalPoint img index =
     (let n = GetDimension img in
      map (\<lambda>i. GetOrigin img ! i
                + (\<Sum>j \<leftarrow> [0..<n]. GetDirection img ! (i * n + j) * GetSpacing img ! j * index ! j))
          [0..<n])"

text \<open>
  \<^verbatim>\<open>astype(np.uint16)\<close> of a float with an integral value: the value modulo \<open>2 ^ 16\<close>, as the
  cast wraps on the usual platforms.
\<close>

definition astype_uint16 :: "int \<Rightarrow> 16 word" where
  "astype_uint16 k = word_of_int k"

text \<open>
  Elementwise NumPy arithmetic on three arrays of the same length (sizes and spacings of a
  volume made with \<^verbatim>\<open>force_3d\<close>, and a spacing of three numbers).
\<close>

fun map3 :: "('a \<Rightarrow> 'b \<Rightarrow> 'c \<Rightarrow> 'd) \<Rightarrow> 'a list \<Rightarrow> 'b list \<Rightarrow> 'c list \<Rightarrow> 'd list" where
  "map3 f (x # xs) (y # ys) (z # zs) = f x y z # map3 f xs ys zs"
| "map3 f _ _ _ = []"

definition get_reference_image :: "sitk_image \<Rightarrow> rat list \<Rightarrow> sitk_image" where
  "get_reference_image img spacing =
     (let old_spacing = GetSpacing img;
          new_spacing = spacing;
          old_size = GetSize img;
          new_size = map3 (\<lambda>n os ns. of_nat n * os / ns) old_size old_spacing new_spacing;
          new_size = map (\<lambda>x. astype_uint16 (ceiling x)) new_size;
          new_size = map2 (\<lambda>n old. if old = 1 then 1 else n) new_size old_size;
          new_origin_index = map2 (\<lambda>ns os. (1 / 2) * (ns / os - 1)) new_spacing old_spacing;
          new_origin_lps = TransformContinuousIndexToPhysicalPoint img new_origin_index
      in \<lparr>GetSize = map unat new_size,
          GetSpacing = new_spacing,
          GetOrigin = new_origin_lps,
          GetDirection = GetDirection img,
          GetPixelID = GetPixelID img,
          GetNumberOfComponentsPerPixel = GetNumberOfComponentsPerPixel img,
          pixels = replicate (prod_list (map unat new_size) * GetNumberOfComponentsPerPixel img) 0\<rparr>)"

subsection \<open>Images, subjects and the heap\<close>

text \<open>
  An \<^verbatim>\<open>Image\<close> is a dictionary: the voxel tensor under \<^verbatim>\<open>DATA\<close>, the 4 by 4 affine under
  \<^verbatim>\<open>AFFINE\<close>, and whatever else was stored in it (\<open>entries\<close>, the keys other than these two).
  \<open>is_ScalarImage\<close> is the result of \<^verbatim>\<open>isinstance(image, ScalarImage)\<close>.
\<close>

record Image =
  is_ScalarImage :: bool
  data :: ndarray
  affine :: ndarray
  entries :: "(pykey \<times> pyvalue) list"

text \<open>
  Modelled from the spec: the constants \<^verbatim>\<open>DATA\<close> and \<^verbatim>\<open>AFFINE\<close> are imported from
  \<^verbatim>\<open>torchio.torchio\<close> (line 11), which is not among the sources. They are the two keys under
  which a Volume keeps its voxel array and its affine; the strings below stand for them.
\<close>

definition DATA :: pykey where
  "DATA = KStr ''data''"

definition AFFINE :: pykey where
  "AFFINE = KStr ''affine''"

definition getitem :: "Image \<Rightarrow> pykey \<Rightarrow> pyvalue option" where
  "getitem img key =
     (if key = DATA then Some (Tensor (data img))
      else if key = AFFINE then Some (NdArray (affine img))
      else map_of (entries img) key)"

text \<open>\<^verbatim>\<open>key in image\<close>\<close>

definition contains :: "Image \<Rightarrow> pykey \<Rightarrow> bool" where
  "contains img key = (getitem img key \<noteq> None)"

text \<open>
  Images are objects: the heap maps an address to the image stored there, and the
  \<^verbatim>\<open>is\<close> of line 157 compares addresses.

  Modelled from the spec: the \<^verbatim>\<open>Subject\<close> class is not among the sources. It is the
  bundle of section 6, an ordered sequence of (key, Volume) pairs with lookup by key; both
  \<^verbatim>\<open>subject.get_images(intensity_only=False)\<close> and \<^verbatim>\<open>self.get_images(subject)\<close> list its
  images in order.
\<close>

type_synonym heap = "Image list"
type_synonym subject = "(string \<times> addr) list"

definition get_images :: "subject \<Rightarrow> addr list" where
  "get_images subject = map snd subject"

text \<open>
  The kernels that \<^verbatim>\<open>parse_interpolation\<close> (in the base class, not among the sources)
  lets through at construction: the docstring's \<^verbatim>\<open>'nearest'\<close>, \<^verbatim>\<open>'linear'\<close> and
  \<^verbatim>\<open>'bspline'\<close>. \<^verbatim>\<open>get_sitk_interpolator\<close> maps each to SimpleITK's interpolator.
\<close>

datatype interpolation = Nearest | Linear | BSpline

text \<open>
  What the code calls outside this file, as parameters: \<^verbatim>\<open>Image.as_sitk(force_3d)\<close>,
  the \<^verbatim>\<open>ResampleImageFilter\<close> (interpolator, reference image, floating image),
  \<^verbatim>\<open>sitk_to_nib\<close> (array and affine of a SimpleITK image), \<^verbatim>\<open>Path.is_file\<close>, the
  \<^verbatim>\<open>ScalarImage(path)\<close> constructor and the \<^verbatim>\<open>Image.spacing\<close> property.
\<close>

record env =
  as_sitk :: "bool \<Rightarrow> Image \<Rightarrow> sitk_image"
  Execute :: "interpolation \<Rightarrow> sitk_image \<Rightarrow> sitk_image \<Rightarrow> sitk_image"
  sitk_to_nib :: "sitk_image \<Rightarrow> ndarray \<times> ndarray"
  is_file :: "string \<Rightarrow> bool"
  ScalarImage :: "string \<Rightarrow> Image"
  image_spacing :: "Image \<Rightarrow> rat list"

subsection \<open>The constructor and parse_target (lines 55-99)\<close>

text \<open>
  The fields of a \<^verbatim>\<open>Resample\<close> object. \<open>reference_image\<close> holds what \<^verbatim>\<open>parse_target\<close>
  returned: the image loaded from an existing path, or the string or path object itself, or
  the image passed in, or \<^verbatim>\<open>None\<close>.
\<close>

record Resample =
  reference_image :: pyarg
  target_spacing :: "rat list option"
  image_interpolation :: interpolation
  pre_affine_name :: "pykey option"
  scalars_only :: bool

fun parse_target :: "env \<Rightarrow> heap \<Rightarrow> pyarg \<Rightarrow> error + (heap \<times> pyarg \<times> rat list option)" where
  "parse_target env heap (Str s) =
     (if is_file env s then Inr (heap @ [ScalarImage env s], ImageObj (length heap), None)
      else Inr (heap, Str s, None))"
| "parse_target env heap (PathObj s) =
     (if is_file env s then Inr (heap @ [ScalarImage env s], ImageObj (length heap), None)
      else Inr (heap, PathObj s, None))"
| "parse_target env heap (ImageObj a) =
     Inr (heap, ImageObj a, Some (image_spacing env (heap ! a)))"
| "parse_target env heap target =
     (case parse_spacing target of
        Inl e \<Rightarrow> Inl e
      | Inr spacing \<Rightarrow> Inr (heap, NoneObj, Some spacing))"

definition init :: "env \<Rightarrow> heap \<Rightarrow> pyarg \<Rightarrow> interpolation \<Rightarrow> pykey option \<Rightarrow> bool
    \<Rightarrow> error + (heap \<times> Resample)" where
  "init env heap target interp affine_name only_scalars =
     (case parse_target env heap target of
        Inl e \<Rightarrow> Inl e
      | Inr (heap', reference, spacing) \<Rightarrow>
          Inr (heap', \<lparr>reference_image = reference, target_spacing = spacing,
                      image_interpolation = interp, pre_affine_name = affine_name,
                      scalars_only = only_scalars\<rparr>))"

subsection \<open>check_affine and check_affine_key_presence (lines 117-149)\<close>

fun is_str :: "pykey \<Rightarrow> bool" where
  "is_str (KStr _) = True"
| "is_str (KInt _) = False"

definition check_shape :: "ndarray \<Rightarrow> error + unit" where
  "check_shape matrix =
     (if shape matrix \<noteq> [4, 4] then Inl (ValueError_affine_shape (shape matrix)) else Inr ())"

definition check_affine :: "pykey \<Rightarrow> Image \<Rightarrow> error + unit" where
  "check_affine affine_name image_dict =
     (if \<not> is_str affine_name then Inl (TypeError_affine_name (key_type affine_name))
      else case getitem image_dict affine_name of
             None \<Rightarrow> Inr ()
           | Some (PyOther ty) \<Rightarrow> Inl (TypeError_affine_matrix ty)
           | Some (NdArray matrix) \<Rightarrow> check_shape matrix
           | Some (Tensor matrix) \<Rightarrow> check_shape matrix)"

text \<open>The loop of lines 142-144 returns at the first image that has the key.\<close>

definition check_affine_key_presence :: "pykey \<Rightarrow> heap \<Rightarrow> subject \<Rightarrow> error + unit" where
  "check_affine_key_presence affine_name heap subject =
     (if list_ex (\<lambda>a. contains (heap ! a) affine_name) (get_images subject) then Inr ()
      else Inl (ValueError_affine_not_found affine_name))"

subsection \<open>apply_transform (lines 151-210)\<close>

text \<open>
  NumPy's \<^verbatim>\<open>@\<close> on two matrices, the left one \<open>n\<close> by \<open>m\<close> and the right one \<open>m\<close> by \<open>p\<close>.
  Line 175 applies it to a matrix that passed \<^verbatim>\<open>check_affine\<close> and to the image's affine,
  both 4 by 4.
\<close>

definition matmul :: "ndarray \<Rightarrow> ndarray \<Rightarrow> ndarray" where
  "matmul A B =
     (let n = shape A ! 0; m = shape A ! 1; p = shape B ! 1 in
      \<lparr>shape = [n, p],
       elems = concat (map (\<lambda>i. map (\<lambda>k. \<Sum>j \<leftarrow> [0..<m]. elems A ! (i * m + j) * elems B ! (j * p + k))
                                     [0..<p]) [0..<n])\<rparr>)"

text \<open>
  Lines 160-166: the kernel for an image, \<open>None\<close> where the loop continues with the next
  image.
\<close>

definition choose_interpolation :: "Resample \<Rightarrow> Image \<Rightarrow> interpolation option" where
  "choose_interpolation self img =
     (if \<not> is_ScalarImage img then
        (if scalars_only self then None else Some Nearest)
      else Some (image_interpolation self))"

text \<open>Lines 169-175: the image with the given affine matrix applied, if it has one.\<close>

definition apply_given_affine :: "Resample \<Rightarrow> Image \<Rightarrow> error + Image" where
  "apply_given_affine self img =
     (case pre_affine_name self of
        None \<Rightarrow> Inr img
      | Some name \<Rightarrow>
          (case getitem img name of
             None \<Rightarrow> Inr img
           | Some matrix \<Rightarrow>
               (case check_affine name img of
                  Inl e \<Rightarrow> Inl e
                | Inr _ \<Rightarrow>
                    (case matrix of
                       NdArray m \<Rightarrow> Inr (img\<lparr>affine := matmul m (affine img)\<rparr>)
                     | Tensor m \<Rightarrow> Inr (img\<lparr>affine := matmul m (affine img)\<rparr>)
                     | PyOther ty \<Rightarrow> Inl (TypeError_affine_matrix ty)))))"

text \<open>
  Lines 180-196: the reference for one floating image. No branch assigns
  \<^verbatim>\<open>reference_image_sitk\<close> when \<open>reference_image\<close> is neither a \<^verbatim>\<open>str\<close> nor an
  \<^verbatim>\<open>Image\<close> nor \<^verbatim>\<open>None\<close>, and line 198 then reads an unbound local.
\<close>

definition reference_sitk :: "env \<Rightarrow> Resample \<Rightarrow> subject \<Rightarrow> heap \<Rightarrow> sitk_image \<Rightarrow> error + sitk_image" where
  "reference_sitk env self subject heap floating_itk =
     (case reference_image self of
        Str name \<Rightarrow>
          (case map_of subject name of
             None \<Rightarrow> Inl (ValueError_reference_not_found name)
           | Some b \<Rightarrow> Inr (as_sitk env False (heap ! b)))
      | ImageObj b \<Rightarrow> Inr (as_sitk env True (heap ! b))
      | NoneObj \<Rightarrow>
          (case target_spacing self of
             None \<Rightarrow> Inl TypeError_spacing_none
           | Some spacing \<Rightarrow> Inr (get_reference_image floating_itk spacing))
      | _ \<Rightarrow> Inl (UnboundLocalError ''reference_image_sitk''))"

text \<open>
  Lines 169-209, for the image at address \<open>a\<close> and the kernel chosen for it. A failure
  returns the heap as the exception leaves it.
\<close>

definition resample_with :: "env \<Rightarrow> Resample \<Rightarrow> subject \<Rightarrow> heap \<Rightarrow> addr \<Rightarrow> interpolation
    \<Rightarrow> (error \<times> heap) + heap" where
  "resample_with env self subject heap a interp =
     (case apply_given_affine self (heap ! a) of
        Inl e \<Rightarrow> Inl (e, heap)
      | Inr img \<Rightarrow>
          (let heap1 = heap[a := img];
               floating_itk = as_sitk env True img
           in case reference_sitk env self subject heap1 floating_itk of
                Inl e \<Rightarrow> Inl (e, heap1)
              | Inr reference_image_sitk \<Rightarrow>
                  if GetDimension reference_image_sitk \<noteq> GetDimension floating_itk
                  then Inl (AssertionError, heap1)
                  else
                    (let resampled = Execute env interp reference_image_sitk floating_itk;
                         (array, affine') = sitk_to_nib env resampled
                     in Inr (heap1[a := img\<lparr>data := array, affine := affine'\<rparr>]))))"

text \<open>The body of the loop (lines 156-209) for the image at address \<open>a\<close>.\<close>

definition resample_image :: "env \<Rightarrow> Resample \<Rightarrow> subject \<Rightarrow> heap \<Rightarrow> addr \<Rightarrow> (error \<times> heap) + heap" where
  "resample_image env self subject heap a =
     (if reference_image self = ImageObj a then Inr heap
      else case choose_interpolation self (heap ! a) of
             None \<Rightarrow> Inr heap
           | Some interp \<Rightarrow> resample_with env self subject heap a interp)"

fun resample_images :: "env \<Rightarrow> Resample \<Rightarrow> subject \<Rightarrow> heap \<Rightarrow> addr list \<Rightarrow> (error \<times> heap) + heap" where
  "resample_images env self subject heap [] = Inr heap"
| "resample_images env self subject heap (a # rest) =
     (case resample_image env self subject heap a of
        Inl failure \<Rightarrow> Inl failure
      | Inr heap' \<Rightarrow> resample_images env self subject heap' rest)"

definition apply_transform :: "env \<Rightarrow> Resample \<Rightarrow> subject \<Rightarrow> heap \<Rightarrow> (error \<times> heap) + heap" where
  "apply_transform env self subject heap =
     (case (case pre_affine_name self of
              None \<Rightarrow> Inr ()
            | Some name \<Rightarrow> check_affine_key_presence name heap subject) of
        Inl e \<Rightarrow> Inl (e, heap)
      | Inr _ \<Rightarrow> resample_images env self subject heap (get_images subject))"


text \<open>The failures of lines 180-200: the reference lookup and the check of the dimensions.\<close>

fun is_reference_failure :: "error \<Rightarrow> bool" where
  "is_reference_failure (ValueError_reference_not_found _) = True"
| "is_reference_failure AssertionError = True"
| "is_reference_failure (UnboundLocalError _) = True"
| "is_reference_failure TypeError_spacing_none = True"
| "is_reference_failure _ = False"

subsection \<open>The grid size of the specification\<close>

text \<open>
  The size that the specification's formula gives on axis \<open>i\<close>, before any cast:
  \<open>ceil(old_size[i] * old_spacing[i] / new_spacing[i])\<close>.
\<close>

definition spec_new_size :: "sitk_image \<Rightarrow> rat list \<Rightarrow> nat \<Rightarrow> int" where
  "spec_new_size img spacing i = \<lceil>of_nat (GetSize img ! i) * GetSpacing img ! i / spacing ! i\<rceil>"

subsection \<open>Example inputs\<close>

definition upsampled_volume :: sitk_image where
  "upsampled_volume = \<lparr>GetSize = [1000, 10, 10], GetSpacing = [1, 1, 1], GetOrigin = [0, 0, 0],
     GetDirection = [1, 0, 0, 0, 1, 0, 0, 0, 1], GetPixelID = 8,
     GetNumberOfComponentsPerPixel = 1, pixels = []\<rparr>"

definition flat_volume :: sitk_image where
  "flat_volume = \<lparr>GetSize = [10, 10, 1], GetSpacing = [1, 1, 1], GetOrigin = [0, 0, 0],
     GetDirection = [1, 0, 0, 0, 1, 0, 0, 0, 1], GetPixelID = 8,
     GetNumberOfComponentsPerPixel = 1, pixels = []\<rparr>"



text \<open>
  An instance of the outside world for running the transform on volumes whose affine is a
  scaling and a translation: the SimpleITK image of a volume has the diagonal of the affine
  as spacing and its last column as origin, the resampler returns the reference grid filled
  with the default pixel value, and no path is a file.
\<close>

definition diagonal_affine :: "rat list \<Rightarrow> rat list \<Rightarrow> ndarray" where
  "diagonal_affine s t =
     \<lparr>shape = [4, 4],
      elems = [s ! 0, 0, 0, t ! 0,  0, s ! 1, 0, t ! 1,  0, 0, s ! 2, t ! 2,  0, 0, 0, 1]\<rparr>"

definition example_as_sitk :: "bool \<Rightarrow> Image \<Rightarrow> sitk_image" where
  "example_as_sitk force_3d img =
     \<lparr>GetSize = tl (shape (data img)),
      GetSpacing = [elems (affine img) ! 0, elems (affine img) ! 5, elems (affine img) ! 10],
      GetOrigin = [elems (affine img) ! 3, elems (affine img) ! 7, elems (affine img) ! 11],
      GetDirection = [1, 0, 0, 0, 1, 0, 0, 0, 1],
      GetPixelID = 8,
      GetNumberOfComponentsPerPixel = hd (shape (data img)),
      pixels = elems (data img)\<rparr>"

definition example_env :: env where
  "example_env =
     \<lparr>as_sitk = example_as_sitk,
      Execute = (\<lambda>interp reference floating.
         reference\<lparr>pixels := replicate (prod_list (GetSize reference)) 0\<rparr>),
      sitk_to_nib = (\<lambda>img.
         (\<lparr>shape = GetNumberOfComponentsPerPixel img # GetSize img, elems = pixels img\<rparr>,
          diagonal_affine (GetSpacing img) (GetOrigin img))),
      is_file = (\<lambda>path. False),
      ScalarImage = (\<lambda>path. \<lparr>is_ScalarImage = True, data = \<lparr>shape = [1, 1, 1, 1], elems = [0]\<rparr>,
         affine = diagonal_affine [1, 1, 1] [0, 0, 0], entries = []\<rparr>),
      image_spacing = (\<lambda>img. [elems (affine img) ! 0, elems (affine img) ! 5, elems (affine img) ! 10])\<rparr>"

text \<open>
  A scalar image and a label map of 2 by 2 by 1 voxels with the identity affine. The scalar
  image carries a correction matrix that doubles every coordinate.
\<close>

definition t1_image :: Image where
  "t1_image =
     \<lparr>is_ScalarImage = True,
      data = \<lparr>shape = [1, 2, 2, 1], elems = [1, 2, 3, 4]\<rparr>,
      affine = diagonal_affine [1, 1, 1] [0, 0, 0],
      entries = [(KStr ''affine_matrix'', NdArray (diagonal_affine [2, 2, 2] [0, 0, 0]))]\<rparr>"

definition label_image :: Image where
  "label_image =
     \<lparr>is_ScalarImage = False,
      data = \<lparr>shape = [1, 2, 2, 1], elems = [0, 1, 1, 0]\<rparr>,
      affine = diagonal_affine [1, 1, 1] [0, 0, 0],
      entries = []\<rparr>"

definition example_transform :: Resample where
  "example_transform =
     \<lparr>reference_image = NoneObj, target_spacing = Some [2, 2, 2],
      image_interpolation = Linear, pre_affine_name = None, scalars_only = False\<rparr>"


section \<open>Properties of parse_spacing\<close>

text \<open>
  C6. \<^verbatim>\<open>parse_spacing\<close> maps a positive number \<open>n\<close> to \<open>(n, n, n)\<close> and returns a tuple of
  three positive numbers as it is. Any argument that is neither a number nor a tuple of length
  three fails with the \<^verbatim>\<open>ValueError\<close> that names its type. A number that is not positive and
  a tuple of three with a component that is not positive fail alike, with the
  \<^verbatim>\<open>ValueError\<close> "Spacing must be positive". Both failures are of class \<^verbatim>\<open>ValueError\<close>.
\<close>

theorem parse_spacing_spec:
  "(0 < n \<longrightarrow> parse_spacing (Number n) = Inr [n, n, n])
   \<and> (0 < a \<and> 0 < b \<and> 0 < c \<longrightarrow> parse_spacing (Tuple [a, b, c]) = Inr [a, b, c])
   \<and> ((\<forall>k. x \<noteq> Number k) \<and> (\<forall>p q r. x \<noteq> Tuple [p, q, r])
        \<longrightarrow> parse_spacing x = Inl (ValueError_target_type (type_name x)))
   \<and> (m \<le> 0 \<longrightarrow> parse_spacing (Number m) = Inl (ValueError_spacing_not_positive (Number m)))
   \<and> (d \<le> 0 \<or> e \<le> 0 \<or> f \<le> 0
        \<longrightarrow> parse_spacing (Tuple [d, e, f]) = Inl (ValueError_spacing_not_positive (Tuple [d, e, f])))
   \<and> error_class (ValueError_target_type ty) = ValueError
   \<and> error_class (ValueError_spacing_not_positive y) = ValueError"
proof -
  have other: "parse_spacing x = Inl (ValueError_target_type (type_name x))"
    if "\<forall>k. x \<noteq> Number k" and "\<forall>p q r. x \<noteq> Tuple [p, q, r]"
    using that by (induction x rule: parse_spacing.induct) auto
  show ?thesis
    using other by auto
qed

theorem parse_spacing_spec_witness:
  "parse_spacing (Number 5) = Inr [5, 5, 5]
   \<and> parse_spacing (Tuple [1, 2, 3]) = Inr [1, 2, 3]
   \<and> parse_spacing (Tuple [1, 2]) = Inl (ValueError_target_type ''tuple'')
   \<and> parse_spacing (Number (- 1)) = Inl (ValueError_spacing_not_positive (Number (- 1)))
   \<and> parse_spacing (Tuple [1, 0, 1]) = Inl (ValueError_spacing_not_positive (Tuple [1, 0, 1]))"
proof -
  have hyps: "(0::rat) < 5" "(0::rat) < 1 \<and> (0::rat) < 2 \<and> (0::rat) < 3"
      "(\<forall>k. Tuple [1, 2] \<noteq> Number k) \<and> (\<forall>p q r. Tuple [1, 2] \<noteq> Tuple [p, q, r])"
      "(- 1 :: rat) \<le> 0" "(1::rat) \<le> 0 \<or> (0::rat) \<le> 0 \<or> (1::rat) \<le> 0"
    by simp_all
  from parse_spacing_spec [of 5 1 2 3 "Tuple [1, 2]" "- 1" 1 0 1] hyps
  have "parse_spacing (Number 5) = Inr [5, 5, 5]
   \<and> parse_spacing (Tuple [1, 2, 3]) = Inr [1, 2, 3]
   \<and> parse_spacing (Tuple [1, 2]) = Inl (ValueError_target_type (type_name (Tuple [1, 2])))
   \<and> parse_spacing (Number (- 1)) = Inl (ValueError_spacing_not_positive (Number (- 1)))
   \<and> parse_spacing (Tuple [1, 0, 1]) = Inl (ValueError_spacing_not_positive (Tuple [1, 0, 1]))"
    by blast
  then show ?thesis by simp
qed

section \<open>Properties of get_reference_image\<close>

lemma map3_nth:
  "i < length xs \<Longrightarrow> length ys = length xs \<Longrightarrow> length zs = length xs \<Longrightarrow>
   map3 f xs ys zs ! i = f (xs ! i) (ys ! i) (zs ! i)"
proof (induction f xs ys zs arbitrary: i rule: map3.induct)
  case (1 f x xs y ys z zs)
  then show ?case by (cases i) auto
qed auto

lemma length_map3:
  "length ys = length xs \<Longrightarrow> length zs = length xs \<Longrightarrow> length (map3 f xs ys zs) = length xs"
  by (induction f xs ys zs rule: map3.induct) auto

lemma unat_astype_uint16: "unat (astype_uint16 k) = nat (k mod 2 ^ 16)"
  by (simp add: astype_uint16_def unat_eq_nat_uint uint_word_of_int)

lemma GetSize_get_reference_image:
  assumes "length (GetSize img) = 3" "length (GetSpacing img) = 3" "length spacing = 3" "i < 3"
  shows "GetSize (get_reference_image img spacing) ! i =
     (if GetSize img ! i = 1 then 1 else nat (spec_new_size img spacing i mod 2 ^ 16))"
  using assms
  by (simp add: get_reference_image_def Let_def map3_nth length_map3 unat_astype_uint16
      spec_new_size_def)


text \<open>
  C4. On each axis of a three-dimensional volume the size of the grid is the ceiling of
  \<open>old_size * old_spacing / new_spacing\<close> cast to 16 bits without sign, that is, taken modulo
  \<open>2 ^ 16\<close> (and 1 on an axis of size 1). So on an axis that is not a singleton and whose
  ceiling is \<open>2 ^ 16\<close> or more, the stored size is the ceiling modulo \<open>2 ^ 16\<close> and differs
  from the ceiling.
\<close>

theorem uint16_size_wraps:
  assumes "length (GetSize img) = 3" "length (GetSpacing img) = 3" "length spacing = 3" "i < 3"
  shows "GetSize (get_reference_image img spacing) ! i =
           (if GetSize img ! i = 1 then 1 else nat (spec_new_size img spacing i mod 2 ^ 16))
       \<and> (GetSize img ! i \<noteq> 1 \<and> 2 ^ 16 \<le> spec_new_size img spacing i \<longrightarrow>
            int (GetSize (get_reference_image img spacing) ! i) = spec_new_size img spacing i mod 2 ^ 16
          \<and> int (GetSize (get_reference_image img spacing) ! i) \<noteq> spec_new_size img spacing i)"
proof -
  have size: "GetSize (get_reference_image img spacing) ! i =
           (if GetSize img ! i = 1 then 1 else nat (spec_new_size img spacing i mod 2 ^ 16))"
    using assms by (rule GetSize_get_reference_image)
  have "spec_new_size img spacing i mod 2 ^ 16 < 2 ^ 16"
    by simp
  then have "2 ^ 16 \<le> spec_new_size img spacing i \<Longrightarrow>
      spec_new_size img spacing i mod 2 ^ 16 \<noteq> spec_new_size img spacing i"
    by linarith
  with size show ?thesis by simp
qed

theorem uint16_size_wraps_witness:
  "length (GetSize upsampled_volume) = 3 \<and> length (GetSpacing upsampled_volume) = 3
   \<and> GetSize upsampled_volume ! 0 \<noteq> 1
   \<and> spec_new_size upsampled_volume [1 / 100, 1, 1] 0 = 100000
   \<and> GetSize (get_reference_image upsampled_volume [1 / 100, 1, 1]) ! 0 = 34464"
proof -
  have len: "length (GetSize upsampled_volume) = 3" "length (GetSpacing upsampled_volume) = 3"
      "length [1 / 100, 1, 1 :: rat] = 3" "(0::nat) < 3"
    by (simp_all add: upsampled_volume_def)
  have axis: "GetSize upsampled_volume ! 0 \<noteq> 1"
    by (simp add: upsampled_volume_def)
  have ceil: "spec_new_size upsampled_volume [1 / 100, 1, 1] 0 = 100000"
    by (simp add: upsampled_volume_def spec_new_size_def)
  from uint16_size_wraps [OF len] axis ceil
  have "int (GetSize (get_reference_image upsampled_volume [1 / 100, 1, 1]) ! 0) = 100000 mod 2 ^ 16"
    by simp
  then have "GetSize (get_reference_image upsampled_volume [1 / 100, 1, 1]) ! 0 = 34464"
    by simp
  with len axis ceil show ?thesis by simp
qed

text \<open>
  C5. An axis of size 1 of a three-dimensional volume has size 1 in the grid that
  \<^verbatim>\<open>get_reference_image\<close> builds, whatever the spacings are. A volume of size (10, 10, 1) and
  spacing (1, 1, 1) gets the size (5, 5, 1) at spacing (2, 2, 2).
\<close>

theorem singleton_axis_kept:
  "(length (GetSize img) = 3 \<and> length (GetSpacing img) = 3 \<and> length spacing = 3
      \<and> i < 3 \<and> GetSize img ! i = 1
     \<longrightarrow> GetSize (get_reference_image img spacing) ! i = 1)
   \<and> (GetSize img2 = [10, 10, 1] \<and> GetSpacing img2 = [1, 1, 1]
     \<longrightarrow> GetSize (get_reference_image img2 [2, 2, 2]) = [5, 5, 1])"
proof (intro conjI impI)
  assume "length (GetSize img) = 3 \<and> length (GetSpacing img) = 3 \<and> length spacing = 3
      \<and> i < 3 \<and> GetSize img ! i = 1"
  then show "GetSize (get_reference_image img spacing) ! i = 1"
    by (simp add: GetSize_get_reference_image)
next
  assume "GetSize img2 = [10, 10, 1] \<and> GetSpacing img2 = [1, 1, 1]"
  then show "GetSize (get_reference_image img2 [2, 2, 2]) = [5, 5, 1]"
    by (simp add: get_reference_image_def astype_uint16_def)
qed

theorem singleton_axis_kept_witness:
  "length (GetSize flat_volume) = 3 \<and> length (GetSpacing flat_volume) = 3
   \<and> GetSize flat_volume ! 2 = 1
   \<and> GetSize (get_reference_image flat_volume [1 / 7, 1 / 7, 1 / 7]) ! 2 = 1
   \<and> GetSize (get_reference_image flat_volume [2, 2, 2]) = [5, 5, 1]"
proof -
  have general: "length (GetSize flat_volume) = 3 \<and> length (GetSpacing flat_volume) = 3
      \<and> length [1 / 7, 1 / 7, 1 / 7 :: rat] = 3 \<and> (2::nat) < 3 \<and> GetSize flat_volume ! 2 = 1"
    by (simp add: flat_volume_def)
  have example: "GetSize flat_volume = [10, 10, 1] \<and> GetSpacing flat_volume = [1, 1, 1]"
    by (simp add: flat_volume_def)
  from singleton_axis_kept [of flat_volume "[1 / 7, 1 / 7, 1 / 7]" 2 flat_volume] general example
  have "GetSize (get_reference_image flat_volume [1 / 7, 1 / 7, 1 / 7]) ! 2 = 1
      \<and> GetSize (get_reference_image flat_volume [2, 2, 2]) = [5, 5, 1]"
    by blast
  with general show ?thesis by simp
qed








section \<open>Properties of apply_transform\<close>


lemma upt_4: "[0..<4] = [0, 1, 2, 3]"
  by (simp add: upt_rec)

lemmas example_defs =
  example_env_def example_as_sitk_def example_transform_def t1_image_def label_image_def
  diagonal_affine_def

lemmas transform_defs =
  apply_transform_def check_affine_key_presence_def get_images_def resample_image_def
  resample_with_def choose_interpolation_def apply_given_affine_def check_affine_def
  check_shape_def reference_sitk_def getitem_def contains_def DATA_def AFFINE_def matmul_def
  GetDimension_def Let_def upt_4


lemma apply_given_affine_failure:
  assumes "apply_given_affine self img = Inl e"
  shows "\<not> is_reference_failure e"
  using assms
  by (auto simp: apply_given_affine_def check_affine_def check_shape_def
      split: option.splits sum.splits pyvalue.splits if_splits)





lemma apply_transform_key_absent:
  assumes "pre_affine_name self = Some name"
    and "\<forall>a \<in> set (get_images subject). \<not> contains (heap ! a) name"
  shows "apply_transform env self subject heap = Inl (ValueError_affine_not_found name, heap)"
  using assms
  by (simp add: apply_transform_def check_affine_key_presence_def list_ex_iff)










text \<open>
  C8. If an affine name is configured and no image of the subject has that key,
  \<^verbatim>\<open>apply_transform\<close> raises the \<^verbatim>\<open>ValueError\<close> of \<^verbatim>\<open>check_affine_key_presence\<close>, and the heap
  is as it was before the call: no image has been resampled or changed.
\<close>

theorem affine_key_fail_fast:
  assumes "pre_affine_name self = Some name"
    and "\<forall>a \<in> set (get_images subject). \<not> contains (heap ! a) name"
  shows "apply_transform env self subject heap = Inl (ValueError_affine_not_found name, heap)"
  using assms by (rule apply_transform_key_absent)

theorem affine_key_fail_fast_witness:
  "pre_affine_name (example_transform\<lparr>pre_affine_name := Some (KStr ''to_mni'')\<rparr>) = Some (KStr ''to_mni'')
   \<and> \<not> contains t1_image (KStr ''to_mni'') \<and> \<not> contains label_image (KStr ''to_mni'')
   \<and> apply_transform example_env (example_transform\<lparr>pre_affine_name := Some (KStr ''to_mni'')\<rparr>)
        [(''t1'', 0), (''seg'', 1)] [t1_image, label_image]
      = Inl (ValueError_affine_not_found (KStr ''to_mni''), [t1_image, label_image])"
proof -
  have configured:
    "pre_affine_name (example_transform\<lparr>pre_affine_name := Some (KStr ''to_mni'')\<rparr>) = Some (KStr ''to_mni'')"
    by simp
  have absent: "\<forall>a \<in> set (get_images [(''t1'', 0), (''seg'', 1)]).
      \<not> contains ([t1_image, label_image] ! a) (KStr ''to_mni'')"
    by (simp add: get_images_def contains_def getitem_def DATA_def AFFINE_def t1_image_def
        label_image_def)
  have "\<not> contains t1_image (KStr ''to_mni'')" "\<not> contains label_image (KStr ''to_mni'')"
    by (simp_all add: contains_def getitem_def DATA_def AFFINE_def t1_image_def label_image_def)
  with affine_key_fail_fast [OF configured absent, of example_env] configured
  show ?thesis by blast
qed






text \<open>
  C2, what the code does. When the target is a name and the subject maps that name to a
  scalar image, the step for that image does not skip it: the image (with the affine
  correction applied, if it has one) is resampled onto its own grid and overwritten with the
  result.
\<close>

theorem named_reference_not_skipped:
  assumes "reference_image self = Str name" "map_of subject name = Some a" "a < length heap"
    and "is_ScalarImage (heap ! a)"
    and "apply_given_affine self (heap ! a) = Inr img"
    and "GetDimension (as_sitk env False img) = GetDimension (as_sitk env True img)"
  shows "resample_image env self subject heap a =
     Inr (heap[a := img
       \<lparr>data := fst (sitk_to_nib env (Execute env (image_interpolation self)
                  (as_sitk env False img) (as_sitk env True img))),
        affine := snd (sitk_to_nib env (Execute env (image_interpolation self)
                  (as_sitk env False img) (as_sitk env True img)))\<rparr>])"
  using assms
  by (simp add: resample_image_def choose_interpolation_def resample_with_def reference_sitk_def
      Let_def split: prod.splits)

theorem named_reference_not_skipped_witness:
  "map_of [(''t1'', 0), (''seg'', 1)] ''t1'' = Some 0
   \<and> resample_image example_env
       (example_transform\<lparr>reference_image := Str ''t1'',
          pre_affine_name := Some (KStr ''affine_matrix'')\<rparr>)
       [(''t1'', 0), (''seg'', 1)] [t1_image, label_image] 0
     = Inr [t1_image\<lparr>data := \<lparr>shape = [1, 2, 2, 1], elems = [0, 0, 0, 0]\<rparr>,
              affine := diagonal_affine [2, 2, 2] [0, 0, 0]\<rparr>, label_image]
   \<and> affine (t1_image\<lparr>data := \<lparr>shape = [1, 2, 2, 1], elems = [0, 0, 0, 0]\<rparr>,
              affine := diagonal_affine [2, 2, 2] [0, 0, 0]\<rparr>) \<noteq> affine t1_image"
proof -
  let ?self = "example_transform\<lparr>reference_image := Str ''t1'',
          pre_affine_name := Some (KStr ''affine_matrix'')\<rparr>"
  let ?img = "t1_image\<lparr>affine := diagonal_affine [2, 2, 2] [0, 0, 0]\<rparr>"
  have named: "reference_image ?self = Str ''t1''"
    and found: "map_of [(''t1'', 0), (''seg'', 1)] ''t1'' = Some 0"
    and valid: "0 < length [t1_image, label_image]"
    and scalar: "is_ScalarImage ([t1_image, label_image] ! 0)"
    by (simp_all add: t1_image_def)
  have corrected: "apply_given_affine ?self ([t1_image, label_image] ! 0) = Inr ?img"
    by (simp add: transform_defs example_defs)
  have dims: "GetDimension (as_sitk example_env False ?img) = GetDimension (as_sitk example_env True ?img)"
    by (simp add: GetDimension_def example_defs)
  from named_reference_not_skipped [OF named found valid scalar corrected dims]
  have "resample_image example_env ?self [(''t1'', 0), (''seg'', 1)] [t1_image, label_image] 0
     = Inr [t1_image\<lparr>data := \<lparr>shape = [1, 2, 2, 1], elems = [0, 0, 0, 0]\<rparr>,
              affine := diagonal_affine [2, 2, 2] [0, 0, 0]\<rparr>, label_image]"
    by (simp add: example_defs eval_nat_numeral)
  moreover have "affine (t1_image\<lparr>data := \<lparr>shape = [1, 2, 2, 1], elems = [0, 0, 0, 0]\<rparr>,
              affine := diagonal_affine [2, 2, 2] [0, 0, 0]\<rparr>) \<noteq> affine t1_image"
    by (simp add: example_defs)
  ultimately show ?thesis using found by blast
qed

text \<open>
  C3, what the code does. A \<^verbatim>\<open>pathlib.Path\<close> that is not a file is stored as it is, and
  \<^verbatim>\<open>apply_transform\<close> then fails at the first image it processes with an unbound local
  variable instead of looking the name up. The same name given as a \<^verbatim>\<open>str\<close> is looked up
  in the subject, and a missing key raises the \<^verbatim>\<open>ValueError\<close> that names it.
\<close>

theorem path_target_not_resolved:
  "(\<not> is_file env p \<and> is_ScalarImage img
     \<longrightarrow> init env [img, ref] (PathObj p) interp None only
          = Inr ([img, ref], \<lparr>reference_image = PathObj p, target_spacing = None,
                   image_interpolation = interp, pre_affine_name = None, scalars_only = only\<rparr>)
       \<and> apply_transform env \<lparr>reference_image = PathObj p, target_spacing = None,
                   image_interpolation = interp, pre_affine_name = None, scalars_only = only\<rparr>
            [(''flo'', 0), (p, 1)] [img, ref]
          = Inl (UnboundLocalError ''reference_image_sitk'', [img, ref]))
   \<and> (\<not> is_file env p
     \<longrightarrow> init env [img, ref] (Str p) interp None only
          = Inr ([img, ref], \<lparr>reference_image = Str p, target_spacing = None,
                   image_interpolation = interp, pre_affine_name = None, scalars_only = only\<rparr>)
       \<and> reference_sitk env \<lparr>reference_image = Str p, target_spacing = None,
                   image_interpolation = interp, pre_affine_name = None, scalars_only = only\<rparr>
            subject heap floating
          = (case map_of subject p of
               None \<Rightarrow> Inl (ValueError_reference_not_found p)
             | Some b \<Rightarrow> Inr (as_sitk env False (heap ! b))))"
  by (simp add: init_def apply_transform_def get_images_def resample_image_def
      choose_interpolation_def resample_with_def apply_given_affine_def reference_sitk_def Let_def)

theorem path_target_not_resolved_witness:
  "\<not> is_file example_env ''seg'' \<and> is_ScalarImage t1_image
   \<and> init example_env [t1_image, label_image] (PathObj ''seg'') Linear None False
     = Inr ([t1_image, label_image], \<lparr>reference_image = PathObj ''seg'', target_spacing = None,
              image_interpolation = Linear, pre_affine_name = None, scalars_only = False\<rparr>)
   \<and> apply_transform example_env \<lparr>reference_image = PathObj ''seg'', target_spacing = None,
              image_interpolation = Linear, pre_affine_name = None, scalars_only = False\<rparr>
        [(''flo'', 0), (''seg'', 1)] [t1_image, label_image]
     = Inl (UnboundLocalError ''reference_image_sitk'', [t1_image, label_image])"
proof -
  have hyps: "\<not> is_file example_env ''seg'' \<and> is_ScalarImage t1_image"
    by (simp add: example_env_def t1_image_def)
  from path_target_not_resolved [of example_env "''seg''" t1_image label_image Linear False] hyps
  show ?thesis by blast
qed



end
